theory Spec2Isabelle
  imports Complex_Main
begin

section \<open>Panel-based back-calculation of the illumination spectra\<close>

text \<open>
  The notebooks of the repository are glue around the hylite library: minimum-wavelength
  fitting, the MWL container, \<open>IlluModel\<close> and \<open>get_band_index\<close> are called, not
  defined, here. The one numerical procedure the notebooks carry out themselves is the
  back-calculation of the illumination spectra from calibration panels, and it is the
  subject of this development.

  The illumination notebook estimates the skylight, sunlight and path-radiance spectra
  from three calibration panels (two lit ones, \<open>R25_close\<close> and \<open>R50_close\<close>, and a
  shaded one, \<open>R99_shade\<close>):
  \<^verbatim>\<open>
  B = np.array([ R25_close.get_mean_radiance(), R50_close.get_mean_radiance(),
                 R99_shade.get_mean_radiance()] )
  A = np.zeros((3,3,radiance.band_count()))
  A[0,0] = R25_close.get_reflectance() * R25_close.skyview
  A[0,1] = R25_close.get_reflectance() * R25_close.alpha
  A[0,2] = 30.
  A[1,0] = R50_close.get_reflectance() * R50_close.skyview
  A[1,1] = R50_close.get_reflectance() * R50_close.alpha
  A[1,2] = 30.
  A[2,0] = R99_shade.get_reflectance() * R99_shade.skyview
  A[2,1] = 0
  A[2,2] = 30.
  skylight,sunlight,pathrad = np.linalg.solve( np.transpose(A, (2,0,1)), B.T ).T
  \<close>
  The entries of \<open>A\<close> and \<open>B\<close> are modelled as exact reals. What
  \<open>np.linalg.solve\<close> computes from them is not fixed here: the solver is a parameter of
  the model, and every property below says what it assumes of the solver's answer. The
  call is read with the semantics of the numpy 1.x line the notebook was written for,
  where a right-hand side with one dimension less than the matrix stack is a stack of
  vectors.
\<close>

subsection \<open>Data\<close>

text \<open>
  A panel as the cell reads it: the per-band arrays returned by \<open>get_reflectance()\<close> and
  \<open>get_mean_radiance()\<close>, and the two scalar attributes \<open>skyview\<close> and \<open>alpha\<close> that the
  notebook sets on the panel.
\<close>

record Panel =
  get_reflectance :: "real list"
  get_mean_radiance :: "real list"
  skyview :: real
  alpha :: real

type_synonym vec3 = "real \<times> real \<times> real"
type_synonym mat3 = "vec3 \<times> vec3 \<times> vec3"

text \<open>
  The two ways the cell can fail: \<open>LinAlgError\<close> is the exception of
  \<open>np.linalg.solve\<close>; \<open>ShapeError\<close> stands for numpy's rejection of arrays whose
  lengths do not fit (a \<open>ValueError\<close> when an array is written into \<open>A\<close>).
\<close>

datatype np_error = LinAlgError | ShapeError

subsection \<open>The linear system of one band\<close>

text \<open>
  \<open>np.transpose(A, (2,0,1))[k]\<close> is the 3x3 matrix \<open>A[:,:,k]\<close> (rows are panels, columns
  are the unknowns skylight, sunlight, path radiance per metre) and \<open>B.T[k]\<close> is the vector
  of the three panel radiances in band \<open>k\<close>.
\<close>

definition A_band :: "Panel \<Rightarrow> Panel \<Rightarrow> Panel \<Rightarrow> nat \<Rightarrow> mat3" where
  "A_band R25_close R50_close R99_shade k =
     ((get_reflectance R25_close ! k * skyview R25_close,
       get_reflectance R25_close ! k * alpha R25_close,
       30),
      (get_reflectance R50_close ! k * skyview R50_close,
       get_reflectance R50_close ! k * alpha R50_close,
       30),
      (get_reflectance R99_shade ! k * skyview R99_shade,
       0,
       30))"

definition B_band :: "Panel \<Rightarrow> Panel \<Rightarrow> Panel \<Rightarrow> nat \<Rightarrow> vec3" where
  "B_band R25_close R50_close R99_shade k =
     (get_mean_radiance R25_close ! k,
      get_mean_radiance R50_close ! k,
      get_mean_radiance R99_shade ! k)"

subsection \<open>The solver\<close>

fun det3 :: "mat3 \<Rightarrow> real" where
  "det3 ((a11, a12, a13), (a21, a22, a23), (a31, a32, a33)) =
     a11 * (a22 * a33 - a23 * a32)
   - a12 * (a21 * a33 - a23 * a31)
   + a13 * (a21 * a32 - a22 * a31)"

fun mat_vec :: "mat3 \<Rightarrow> vec3 \<Rightarrow> vec3" where
  "mat_vec ((a11, a12, a13), (a21, a22, a23), (a31, a32, a33)) (x1, x2, x3) =
     (a11 * x1 + a12 * x2 + a13 * x3,
      a21 * x1 + a22 * x2 + a23 * x3,
      a31 * x1 + a32 * x2 + a33 * x3)"

text \<open>
  \<open>np.linalg.solve\<close> for one 3x3 matrix and one right-hand side is a parameter
  \<open>solve\<close> of the model: a function that returns either an error or three numbers.
  Nothing is assumed about when it raises or how accurate its numbers are.
\<close>

type_synonym solver = "mat3 \<Rightarrow> vec3 \<Rightarrow> np_error + vec3"

text \<open>
  On a stack of matrices the call solves band after band, and a band on which the solver
  raises makes the whole call raise.
\<close>

fun solve_stack :: "solver \<Rightarrow> (mat3 \<times> vec3) list \<Rightarrow> np_error + vec3 list" where
  "solve_stack solve [] = Inr []"
| "solve_stack solve ((a, b) # rest) =
     (case solve a b of
        Inl e \<Rightarrow> Inl e
      | Inr x \<Rightarrow>
          (case solve_stack solve rest of Inl e \<Rightarrow> Inl e | Inr xs \<Rightarrow> Inr (x # xs)))"

text \<open>
  The solver answers a system when it returns numbers and they satisfy \<open>a x = b\<close>.
\<close>

definition returns_solution :: "solver \<Rightarrow> mat3 \<Rightarrow> vec3 \<Rightarrow> bool" where
  "returns_solution solve a b =
     (case solve a b of Inl e \<Rightarrow> False | Inr x \<Rightarrow> mat_vec a x = b)"

text \<open>
  One solver to run the examples with: Cramer's rule in exact arithmetic, which raises on
  a zero determinant. It is an instance of the parameter, not a description of
  \<open>np.linalg.solve\<close>.
\<close>

fun cramer3 :: solver where
  "cramer3 ((a11, a12, a13), (a21, a22, a23), (a31, a32, a33)) (b1, b2, b3) =
     (let d = det3 ((a11, a12, a13), (a21, a22, a23), (a31, a32, a33)) in
      if d = 0 then Inl LinAlgError
      else Inr (det3 ((b1, a12, a13), (b2, a22, a23), (b3, a32, a33)) / d,
                det3 ((a11, b1, a13), (a21, b2, a23), (a31, b3, a33)) / d,
                det3 ((a11, a12, b1), (a21, a22, b2), (a31, a32, b3)) / d))"

subsection \<open>The cell\<close>

text \<open>
  \<open>band_count\<close> is \<open>radiance.band_count()\<close>. Each array written into \<open>A\<close> and each row of
  \<open>B\<close> must have that many entries; any other length is rejected (numpy's broadcasting
  of one-element arrays is not modelled). The cell has no handler, so an
  error of the solver is the error of the cell. The final \<open>.T\<close> turns the per-band
  solutions into the three spectra.
\<close>

definition backcalc ::
  "solver \<Rightarrow> nat \<Rightarrow> Panel \<Rightarrow> Panel \<Rightarrow> Panel \<Rightarrow>
     np_error + (real list \<times> real list \<times> real list)" where
  "backcalc solve band_count R25_close R50_close R99_shade =
     (if \<not> (length (get_reflectance R25_close) = band_count
            \<and> length (get_reflectance R50_close) = band_count
            \<and> length (get_reflectance R99_shade) = band_count
            \<and> length (get_mean_radiance R25_close) = band_count
            \<and> length (get_mean_radiance R50_close) = band_count
            \<and> length (get_mean_radiance R99_shade) = band_count)
      then Inl ShapeError
      else
        (case solve_stack solve
                (map (\<lambda>k. (A_band R25_close R50_close R99_shade k,
                          B_band R25_close R50_close R99_shade k))
                     [0..<band_count]) of
           Inl e \<Rightarrow> Inl e
         | Inr xs \<Rightarrow> Inr (map fst xs, map (fst \<circ> snd) xs, map (snd \<circ> snd) xs)))"

text \<open>
  How the radiance of a panel is synthesised from known illumination in one band (the
  forward equation of the panel system): reflectance times the skylight seen through the
  sky-view factor, plus reflectance times the sunlight scaled by the cosine factor, plus
  path radiance per metre times the distance to the sensor.
\<close>

definition panel_radiance ::
  "real \<Rightarrow> real \<Rightarrow> real \<Rightarrow> real \<Rightarrow> real \<Rightarrow> real \<Rightarrow> real \<Rightarrow> real" where
  "panel_radiance r skv cos_theta d skylight sunlight pathrad =
     r * skv * skylight + r * cos_theta * sunlight + d * pathrad"


subsection \<open>Example panels\<close>

text \<open>
  Two bands. The lit panels share sky-view factor 4/5 and cosine factor 1/2, as the lit
  panels of the notebook share theirs; the shaded panel has sky-view factor 3/5. The
  radiances are those of skylight (2, 3), sunlight (10, 8) and a path radiance of
  (3/10, 3/5) over the whole path: (1/100, 1/50) per metre at 30 m, or (3/100, 3/50) per
  metre at 10 m.
\<close>

definition ex_R25 :: Panel where
  "ex_R25 = \<lparr>get_reflectance = [1/4, 1/4], get_mean_radiance = [39/20, 11/5],
              skyview = 4/5, alpha = 1/2\<rparr>"

definition ex_R50 :: Panel where
  "ex_R50 = \<lparr>get_reflectance = [1/2, 1/2], get_mean_radiance = [18/5, 19/5],
              skyview = 4/5, alpha = 1/2\<rparr>"

definition ex_R99 :: Panel where
  "ex_R99 = \<lparr>get_reflectance = [99/100, 99/100], get_mean_radiance = [186/125, 1191/500],
              skyview = 3/5, alpha = 0\<rparr>"

text \<open>
  One band, two lit panels of different reflectance (1/4 and 1/2) whose geometry differs
  so that their two rows of the matrix coincide.
\<close>

definition sing_R25 :: Panel where
  "sing_R25 = \<lparr>get_reflectance = [1/4], get_mean_radiance = [33/10],
                skyview = 1, alpha = 1\<rparr>"

definition sing_R50 :: Panel where
  "sing_R50 = \<lparr>get_reflectance = [1/2], get_mean_radiance = [33/10],
                skyview = 1/2, alpha = 1/2\<rparr>"

definition sing_R99 :: Panel where
  "sing_R99 = \<lparr>get_reflectance = [99/100], get_mean_radiance = [186/125],
                skyview = 3/5, alpha = 0\<rparr>"

section \<open>Properties of the linear system\<close>

text \<open>Replacing a column by \<open>a x\<close> multiplies the determinant by the matching unknown.\<close>

lemma det3_replace1:
  "det3 ((a11 * x1 + a12 * x2 + a13 * x3, a12, a13),
         (a21 * x1 + a22 * x2 + a23 * x3, a22, a23),
         (a31 * x1 + a32 * x2 + a33 * x3, a32, a33))
   = x1 * det3 ((a11, a12, a13), (a21, a22, a23), (a31, a32, a33))"
  by (simp add: algebra_simps)

lemma det3_replace2:
  "det3 ((a11, a11 * x1 + a12 * x2 + a13 * x3, a13),
         (a21, a21 * x1 + a22 * x2 + a23 * x3, a23),
         (a31, a31 * x1 + a32 * x2 + a33 * x3, a33))
   = x2 * det3 ((a11, a12, a13), (a21, a22, a23), (a31, a32, a33))"
  by (simp add: algebra_simps)

lemma det3_replace3:
  "det3 ((a11, a12, a11 * x1 + a12 * x2 + a13 * x3),
         (a21, a22, a21 * x1 + a22 * x2 + a23 * x3),
         (a31, a32, a31 * x1 + a32 * x2 + a33 * x3))
   = x3 * det3 ((a11, a12, a13), (a21, a22, a23), (a31, a32, a33))"
  by (simp add: algebra_simps)

lemma cramer3_singular: "det3 a = 0 \<Longrightarrow> cramer3 a b = Inl LinAlgError"
  by (cases a rule: prod_cases3; cases b rule: prod_cases3) (auto simp: Let_def)

lemma cramer3_solution:
  assumes "det3 a \<noteq> 0" and "mat_vec a x = b"
  shows "cramer3 a b = Inr x"
proof -
  obtain a11 a12 a13 a21 a22 a23 a31 a32 a33 where
    a: "a = ((a11, a12, a13), (a21, a22, a23), (a31, a32, a33))"
    by (metis prod_cases3)
  obtain x1 x2 x3 where x: "x = (x1, x2, x3)" by (metis prod_cases3)
  from assms(2) have b: "b = (a11 * x1 + a12 * x2 + a13 * x3,
      a21 * x1 + a22 * x2 + a23 * x3, a31 * x1 + a32 * x2 + a33 * x3)"
    by (simp add: a x)
  define d where "d = det3 ((a11, a12, a13), (a21, a22, a23), (a31, a32, a33))"
  have d: "d \<noteq> 0" using assms(1) unfolding a d_def .
  have "cramer3 a b = Inr (x1 * d / d, x2 * d / d, x3 * d / d)"
    unfolding a b cramer3.simps Let_def det3_replace1 det3_replace2 det3_replace3
    using d by (simp only: d_def [symmetric] if_False)
  with d show ?thesis by (simp add: x)
qed

text \<open>A regular system has one solution only.\<close>

lemma regular_unique:
  assumes "det3 a \<noteq> 0" and "mat_vec a x = b" and "mat_vec a y = b"
  shows "x = y"
proof -
  have "cramer3 a b = Inr x" using assms(1,2) by (rule cramer3_solution)
  moreover have "cramer3 a b = Inr y" using assms(1,3) by (rule cramer3_solution)
  ultimately show ?thesis by simp
qed

text \<open>
  A solver that answers a regular system returns the solution one already knows.
\<close>

lemma returns_solution_known:
  assumes "det3 a \<noteq> 0" and "mat_vec a x = b" and "returns_solution solve a b"
  shows "solve a b = Inr x"
proof (cases "solve a b")
  case (Inl e)
  with assms(3) show ?thesis by (simp add: returns_solution_def)
next
  case (Inr y)
  with assms(3) have "mat_vec a y = b" by (simp add: returns_solution_def)
  with assms(1,2) have "x = y" by (rule regular_unique)
  with Inr show ?thesis by simp
qed

lemma cramer3_returns_solution: "det3 a \<noteq> 0 \<Longrightarrow> mat_vec a x = b \<Longrightarrow> returns_solution cramer3 a b"
  by (simp add: returns_solution_def cramer3_solution)

section \<open>Properties of the stacked call\<close>

lemma solve_stack_all:
  "(\<And>k. k \<in> set ks \<Longrightarrow> solve (A k) (b k) = Inr (x k)) \<Longrightarrow>
   solve_stack solve (map (\<lambda>k. (A k, b k)) ks) = Inr (map x ks)"
  by (induction ks) simp_all

text \<open>
  When the solver raises on some band, the stacked call raises an error that the solver
  raised on a band.
\<close>

lemma solve_stack_error:
  "\<exists>p \<in> set ps. \<exists>e. solve (fst p) (snd p) = Inl e \<Longrightarrow>
   \<exists>p \<in> set ps. \<exists>e. solve (fst p) (snd p) = Inl e \<and> solve_stack solve ps = Inl e"
proof (induction ps)
  case Nil
  then show ?case by simp
next
  case (Cons p ps)
  obtain a b where p: "p = (a, b)" by (cases p)
  show ?case
  proof (cases "solve a b")
    case (Inl e)
    then show ?thesis by (auto simp: p)
  next
    case (Inr x)
    with Cons.prems have "\<exists>q \<in> set ps. \<exists>e. solve (fst q) (snd q) = Inl e"
      by (auto simp: p)
    then obtain q e where "q \<in> set ps" "solve (fst q) (snd q) = Inl e"
      "solve_stack solve ps = Inl e"
      using Cons.IH by blast
    with Inr show ?thesis by (auto simp: p)
  qed
qed

section \<open>Properties of the panel system\<close>

text \<open>
  With the notebook's geometry (both lit panels carry the same sky-view and cosine
  factors) the determinant of a band factors, so the band is regular exactly when the
  lit reflectances differ, the lit panels receive sunlight, and the shaded panel reflects
  some skylight.
\<close>

lemma det3_A_band_shared_geometry:
  assumes "skyview R25_close = skyview R50_close" and "alpha R25_close = alpha R50_close"
  shows "det3 (A_band R25_close R50_close R99_shade k) =
     30 * alpha R25_close * (get_reflectance R99_shade ! k * skyview R99_shade)
        * (get_reflectance R25_close ! k - get_reflectance R50_close ! k)"
  using assms by (simp add: A_band_def algebra_simps)

text \<open>
  Radiances synthesised for panels 30 m away, the third one without direct sunlight,
  are the right-hand side that the matrix of the cell produces from the known
  illumination.
\<close>

lemma A_band_forward:
  assumes "get_mean_radiance p1 ! k =
             panel_radiance (get_reflectance p1 ! k) (skyview p1) (alpha p1) 30 sky sun path"
      and "get_mean_radiance p2 ! k =
             panel_radiance (get_reflectance p2 ! k) (skyview p2) (alpha p2) 30 sky sun path"
      and "get_mean_radiance p3 ! k =
             panel_radiance (get_reflectance p3 ! k) (skyview p3) 0 30 sky sun path"
  shows "mat_vec (A_band p1 p2 p3 k) (sky, sun, path) = B_band p1 p2 p3 k"
  using assms by (simp add: A_band_def B_band_def panel_radiance_def algebra_simps)

text \<open>A bounded quantifier over the first two bands, written out.\<close>

lemma all_less_2: "(\<forall>k<2::nat. P k) \<longleftrightarrow> P 0 \<and> P 1"
  by (auto simp: less_Suc_eq numeral_2_eq_2)

section \<open>Recovery of known illumination\<close>

text \<open>
  Claim C8, as the cell supports it. Take three panels 30 m from the sensor (the distance
  the cell writes into the third column of every row; a panel carries no distance of its
  own), two of them lit and the third shaded so that it receives no direct sunlight, and
  let their radiances be synthesised in every band from known skylight, sunlight and
  path radiance per metre. Then, whatever the solver is,
  \<^item> if the coefficient matrix of every band is regular and the solver answers the
    system of every band, the cell returns exactly the known skylight, sunlight and
    path-radiance spectra;
  \<^item> if the solver raises on some band, the cell raises an error that the solver raised
    on a band: the failure reaches the caller and nothing is repaired;
  \<^item> when the two lit panels share their sky-view and cosine factors (as in the
    notebook), have different reflectances in every band and a non-zero cosine factor,
    and the shaded panel has non-zero reflectance and sky-view factor, every band is
    regular, so a solver that answers the system of every band makes the cell return
    the known spectra.
\<close>

theorem backcalc_recovers_known_illumination:
  assumes shape:
    "length (get_reflectance R25_close) = n" "length (get_reflectance R50_close) = n"
    "length (get_reflectance R99_shade) = n"
    "length (get_mean_radiance R25_close) = n" "length (get_mean_radiance R50_close) = n"
    "length (get_mean_radiance R99_shade) = n"
    "length skylight = n" "length sunlight = n" "length pathrad = n"
  and lit1: "\<forall>k<n. get_mean_radiance R25_close ! k =
      panel_radiance (get_reflectance R25_close ! k) (skyview R25_close) (alpha R25_close) 30
        (skylight ! k) (sunlight ! k) (pathrad ! k)"
  and lit2: "\<forall>k<n. get_mean_radiance R50_close ! k =
      panel_radiance (get_reflectance R50_close ! k) (skyview R50_close) (alpha R50_close) 30
        (skylight ! k) (sunlight ! k) (pathrad ! k)"
  and shaded: "\<forall>k<n. get_mean_radiance R99_shade ! k =
      panel_radiance (get_reflectance R99_shade ! k) (skyview R99_shade) 0 30
        (skylight ! k) (sunlight ! k) (pathrad ! k)"
  shows "((\<forall>k<n. det3 (A_band R25_close R50_close R99_shade k) \<noteq> 0
                 \<and> returns_solution solve (A_band R25_close R50_close R99_shade k)
                                         (B_band R25_close R50_close R99_shade k)) \<longrightarrow>
            backcalc solve n R25_close R50_close R99_shade
              = Inr (skylight, sunlight, pathrad))
       \<and> ((\<exists>k<n. \<exists>e. solve (A_band R25_close R50_close R99_shade k)
                            (B_band R25_close R50_close R99_shade k) = Inl e) \<longrightarrow>
            (\<exists>k<n. \<exists>e. solve (A_band R25_close R50_close R99_shade k)
                             (B_band R25_close R50_close R99_shade k) = Inl e
                       \<and> backcalc solve n R25_close R50_close R99_shade = Inl e))
       \<and> (skyview R25_close = skyview R50_close \<and> alpha R25_close = alpha R50_close
            \<and> alpha R25_close \<noteq> 0 \<and> skyview R99_shade \<noteq> 0
            \<and> (\<forall>k<n. get_reflectance R25_close ! k \<noteq> get_reflectance R50_close ! k
                      \<and> get_reflectance R99_shade ! k \<noteq> 0
                      \<and> returns_solution solve (A_band R25_close R50_close R99_shade k)
                                              (B_band R25_close R50_close R99_shade k)) \<longrightarrow>
            backcalc solve n R25_close R50_close R99_shade
              = Inr (skylight, sunlight, pathrad))"
proof -
  let ?A = "A_band R25_close R50_close R99_shade"
  let ?B = "B_band R25_close R50_close R99_shade"
  let ?sys = "map (\<lambda>k. (?A k, ?B k)) [0..<n]"
  let ?x = "\<lambda>k. (skylight ! k, sunlight ! k, pathrad ! k)"
  have run: "backcalc solve n R25_close R50_close R99_shade =
      (case solve_stack solve ?sys of
         Inl e \<Rightarrow> Inl e
       | Inr xs \<Rightarrow> Inr (map fst xs, map (fst \<circ> snd) xs, map (snd \<circ> snd) xs))"
    using shape by (simp add: backcalc_def)
  have known: "mat_vec (?A k) (?x k) = ?B k" if "k < n" for k
    using that lit1 lit2 shaded by (intro A_band_forward) auto
  have regular: "backcalc solve n R25_close R50_close R99_shade
                   = Inr (skylight, sunlight, pathrad)"
    if answered: "\<forall>k<n. det3 (?A k) \<noteq> 0 \<and> returns_solution solve (?A k) (?B k)"
  proof -
    have each: "solve (?A k) (?B k) = Inr (?x k)" if "k < n" for k
      using that answered known by (intro returns_solution_known) auto
    have "solve_stack solve ?sys = Inr (map ?x [0..<n])"
      by (rule solve_stack_all) (simp add: each)
    moreover have "map (\<lambda>k. skylight ! k) [0..<n] = skylight"
      unfolding shape(7) [symmetric] by (rule map_nth)
    moreover have "map (\<lambda>k. sunlight ! k) [0..<n] = sunlight"
      unfolding shape(8) [symmetric] by (rule map_nth)
    moreover have "map (\<lambda>k. pathrad ! k) [0..<n] = pathrad"
      unfolding shape(9) [symmetric] by (rule map_nth)
    ultimately show ?thesis by (simp add: run comp_def)
  qed
  have raised: "\<exists>k<n. \<exists>e. solve (?A k) (?B k) = Inl e
                  \<and> backcalc solve n R25_close R50_close R99_shade = Inl e"
    if "\<exists>k<n. \<exists>e. solve (?A k) (?B k) = Inl e"
  proof -
    from that have "\<exists>p \<in> set ?sys. \<exists>e. solve (fst p) (snd p) = Inl e" by auto
    then have "\<exists>p \<in> set ?sys. \<exists>e. solve (fst p) (snd p) = Inl e
                 \<and> solve_stack solve ?sys = Inl e"
      by (rule solve_stack_error)
    then obtain k e where "k < n" "solve (?A k) (?B k) = Inl e"
      "solve_stack solve ?sys = Inl e"
      by auto
    then show ?thesis by (auto simp: run)
  qed
  have geometry: "\<forall>k<n. det3 (?A k) \<noteq> 0 \<and> returns_solution solve (?A k) (?B k)"
    if "skyview R25_close = skyview R50_close \<and> alpha R25_close = alpha R50_close
        \<and> alpha R25_close \<noteq> 0 \<and> skyview R99_shade \<noteq> 0
        \<and> (\<forall>k<n. get_reflectance R25_close ! k \<noteq> get_reflectance R50_close ! k
                  \<and> get_reflectance R99_shade ! k \<noteq> 0
                  \<and> returns_solution solve (?A k) (?B k))"
    using that by (simp add: det3_A_band_shared_geometry)
  from regular raised geometry show ?thesis by blast
qed

text \<open>
  The theorem at the example panels, with the exact solver as the solver: on the
  two-band system it answers every band and the cell returns the known spectra; on the
  one-band system whose lit rows coincide it raises, and \<open>LinAlgError\<close> is the result of
  the cell.
\<close>

theorem backcalc_recovers_known_illumination_witness:
  "backcalc cramer3 2 ex_R25 ex_R50 ex_R99 = Inr ([2, 3], [10, 8], [1/100, 1/50])
   \<and> cramer3 (A_band sing_R25 sing_R50 sing_R99 0) (B_band sing_R25 sing_R50 sing_R99 0)
       = Inl LinAlgError
   \<and> backcalc cramer3 1 sing_R25 sing_R50 sing_R99 = Inl LinAlgError"
proof -
  have regular: "backcalc cramer3 2 ex_R25 ex_R50 ex_R99 = Inr ([2, 3], [10, 8], [1/100, 1/50])"
    using backcalc_recovers_known_illumination
      [of ex_R25 2 ex_R50 ex_R99 "[2, 3]" "[10, 8]" "[1/100, 1/50]" cramer3]
    by (simp add: ex_R25_def ex_R50_def ex_R99_def panel_radiance_def all_less_2
        returns_solution_def A_band_def B_band_def)
  have r: "cramer3 (A_band sing_R25 sing_R50 sing_R99 0) (B_band sing_R25 sing_R50 sing_R99 0)
      = Inl LinAlgError"
    by (simp add: A_band_def B_band_def sing_R25_def sing_R50_def sing_R99_def)
  have raised: "backcalc cramer3 1 sing_R25 sing_R50 sing_R99 = Inl LinAlgError"
    using backcalc_recovers_known_illumination
      [of sing_R25 1 sing_R50 sing_R99 "[2]" "[10]" "[1/100]" cramer3] r
    by (auto simp: sing_R25_def sing_R50_def sing_R99_def panel_radiance_def)
  from regular r raised show ?thesis by simp
qed

text \<open>
  Claim C8 as stated, for every set of three such panels, fails for panels that are not
  30 m away. The example radiances are also those of the same skylight and sunlight with
  a path radiance of (3/100, 3/50) per metre seen from 10 m. Every band is regular, the
  known spectra do not satisfy the system the cell builds, and the spectra with a path
  radiance of (1/100, 1/50) per metre, a third of the known value, do: they are what the
  cell returns with a solver that answers the system.
\<close>

theorem backcalc_other_distance_counterexample:
  "get_mean_radiance ex_R25 ! 0 = panel_radiance (1/4) (4/5) (1/2) 10 2 10 (3/100)
   \<and> get_mean_radiance ex_R25 ! 1 = panel_radiance (1/4) (4/5) (1/2) 10 3 8 (3/50)
   \<and> get_mean_radiance ex_R50 ! 0 = panel_radiance (1/2) (4/5) (1/2) 10 2 10 (3/100)
   \<and> get_mean_radiance ex_R50 ! 1 = panel_radiance (1/2) (4/5) (1/2) 10 3 8 (3/50)
   \<and> get_mean_radiance ex_R99 ! 0 = panel_radiance (99/100) (3/5) 0 10 2 10 (3/100)
   \<and> get_mean_radiance ex_R99 ! 1 = panel_radiance (99/100) (3/5) 0 10 3 8 (3/50)
   \<and> det3 (A_band ex_R25 ex_R50 ex_R99 0) \<noteq> 0
   \<and> det3 (A_band ex_R25 ex_R50 ex_R99 1) \<noteq> 0
   \<and> mat_vec (A_band ex_R25 ex_R50 ex_R99 0) (2, 10, 3/100) \<noteq> B_band ex_R25 ex_R50 ex_R99 0
   \<and> mat_vec (A_band ex_R25 ex_R50 ex_R99 1) (3, 8, 3/50) \<noteq> B_band ex_R25 ex_R50 ex_R99 1
   \<and> mat_vec (A_band ex_R25 ex_R50 ex_R99 0) (2, 10, 1/100) = B_band ex_R25 ex_R50 ex_R99 0
   \<and> mat_vec (A_band ex_R25 ex_R50 ex_R99 1) (3, 8, 1/50) = B_band ex_R25 ex_R50 ex_R99 1
   \<and> backcalc cramer3 2 ex_R25 ex_R50 ex_R99 = Inr ([2, 3], [10, 8], [1/100, 1/50])
   \<and> backcalc cramer3 2 ex_R25 ex_R50 ex_R99 \<noteq> Inr ([2, 3], [10, 8], [3/100, 3/50])"
  by (simp add: backcalc_def A_band_def B_band_def ex_R25_def ex_R50_def ex_R99_def
      panel_radiance_def upt_rec numeral_2_eq_2)

end
